theory Spec2Isabelle
  imports Main "HOL-Library.Sublist"
begin

section \<open>Craigslist monitor: the Go program \<open>craigslist_bot.go\<close>\<close>

text \<open>
  The program polls a search page once per tick, extracts listings, inserts them into an
  SQLite table keyed by \<open>listing_url\<close>, sends a push notification for listings whose
  price is free or unknown, deletes rows older than one hour and sleeps.

  Go strings are byte sequences, so a string is a \<open>char list\<close> of UTF-8 bytes. A
  \<open>time.Time\<close> is the reading of a clock in its zone; the column \<open>posted\<close> holds the
  text that the driver go-sqlite3 makes of it, and SQLite compares that text, byte by
  byte, with the text of its own \<open>datetime\<close>. \<open>time.Duration\<close> is an integer number
  of nanoseconds.
  What the program receives from outside (the rendered page, the clock, the results of
  \<open>db.Exec\<close> and of the HTTP client) is an explicit input of the model; what it does to
  the outside (statements executed, requests sent, lines printed, sleeps) is returned as a
  list of events.
\<close>

subsection \<open>Library functions on strings\<close>

text \<open>\<open>strings.Index(s, sep)\<close>: the index of the first occurrence, \<open>None\<close> for Go's -1.\<close>

fun Index :: "string \<Rightarrow> string \<Rightarrow> nat option" where
  "Index [] sep = (if sep = [] then Some 0 else None)"
| "Index (c # cs) sep =
     (if prefix sep (c # cs) then Some 0 else map_option Suc (Index cs sep))"

text \<open>
  \<open>strings.Split(s, sep)\<close> for a non-empty separator: cut at each leftmost occurrence
  of \<open>sep\<close> in what is left of \<open>s\<close>; the result always has at least one part.
  (With an empty separator Go explodes \<open>s\<close> into its UTF-8 sequences; the program never
  does that, and here the string is returned whole.)
\<close>

function Split :: "string \<Rightarrow> string \<Rightarrow> string list" where
  "Split s sep =
     (if sep = [] then [s]
      else case Index s sep of
             None \<Rightarrow> [s]
           | Some m \<Rightarrow> take m s # Split (drop (m + length sep) s) sep)"
  by pat_completeness auto
termination
proof (relation "measure (\<lambda>(s, sep). length s)")
  show "wf (measure (\<lambda>(s, sep). length s))" by simp
next
  fix s sep :: string and m :: nat
  assume "sep \<noteq> []" and "Index s sep = Some m"
  then have "s \<noteq> []" by (cases s) auto
  with \<open>sep \<noteq> []\<close> show "((drop (m + length sep) s, sep), (s, sep)) \<in> measure (\<lambda>(s, sep). length s)"
    by (cases s) auto
qed

declare Split.simps [simp del]

text \<open>
  The white space of \<open>unicode.IsSpace\<close> in UTF-8: the six ASCII characters, U+0085,
  U+00A0, U+1680, U+2000 to U+200A, U+2028, U+2029, U+202F, U+205F and U+3000.
\<close>

definition white_space :: "string list" where
  "white_space =
     [[CHR 0x09], [CHR 0x0A], [CHR 0x0B], [CHR 0x0C], [CHR 0x0D], [CHR 0x20],
      [CHR 0xC2, CHR 0x85], [CHR 0xC2, CHR 0xA0], [CHR 0xE1, CHR 0x9A, CHR 0x80],
      [CHR 0xE2, CHR 0x80, CHR 0x80], [CHR 0xE2, CHR 0x80, CHR 0x81],
      [CHR 0xE2, CHR 0x80, CHR 0x82], [CHR 0xE2, CHR 0x80, CHR 0x83],
      [CHR 0xE2, CHR 0x80, CHR 0x84], [CHR 0xE2, CHR 0x80, CHR 0x85],
      [CHR 0xE2, CHR 0x80, CHR 0x86], [CHR 0xE2, CHR 0x80, CHR 0x87],
      [CHR 0xE2, CHR 0x80, CHR 0x88], [CHR 0xE2, CHR 0x80, CHR 0x89],
      [CHR 0xE2, CHR 0x80, CHR 0x8A], [CHR 0xE2, CHR 0x80, CHR 0xA8],
      [CHR 0xE2, CHR 0x80, CHR 0xA9], [CHR 0xE2, CHR 0x80, CHR 0xAF],
      [CHR 0xE2, CHR 0x81, CHR 0x9F], [CHR 0xE3, CHR 0x80, CHR 0x80]]"

text \<open>
  Stripping leading runes: as long as the string starts with one of the encodings
  \<open>ws\<close>, drop it. No encoding is empty, which the guard \<open>w \<noteq> []\<close> records for the
  termination proof.
\<close>

function TrimLeftIn :: "string list \<Rightarrow> string \<Rightarrow> string" where
  "TrimLeftIn ws s =
     (case find (\<lambda>w. w \<noteq> [] \<and> prefix w s) ws of
        None \<Rightarrow> s
      | Some w \<Rightarrow> TrimLeftIn ws (drop (length w) s))"
  by pat_completeness auto
termination
proof (relation "measure (\<lambda>(ws, s). length s)")
  show "wf (measure (\<lambda>(ws, s). length s))" by simp
next
  fix ws :: "string list" and s w :: string
  assume "find (\<lambda>w. w \<noteq> [] \<and> prefix w s) ws = Some w"
  then have "w \<noteq> []" and "prefix w s" by (auto simp: find_Some_iff)
  then have "s \<noteq> []" by auto
  with \<open>w \<noteq> []\<close> show "((ws, drop (length w) s), (ws, s)) \<in> measure (\<lambda>(ws, s). length s)"
    by simp
qed

declare TrimLeftIn.simps [simp del]

text \<open>
  \<open>strings.TrimSpace\<close>: leading white space is cut first, then trailing white space
  (the same encodings, read from the end).
\<close>

definition TrimSpace :: "string \<Rightarrow> string" where
  "TrimSpace s = rev (TrimLeftIn (map rev white_space) (rev (TrimLeftIn white_space s)))"

text \<open>
  \<open>strings.ToLower\<close> on the bytes of ASCII; a byte from 0x80 on is left as it is. Go
  lowers runes outside ASCII too, but the only runes it turns into ASCII letters are
  U+0130 (to \<open>i\<close>) and U+212A (to \<open>k\<close>), so the program's one use of it, the comparison
  with \<open>"free"\<close>, has the same result.
\<close>

definition lower_byte :: "char \<Rightarrow> char" where
  "lower_byte c =
     (case map_of (zip ''ABCDEFGHIJKLMNOPQRSTUVWXYZ'' ''abcdefghijklmnopqrstuvwxyz'') c of
        Some l \<Rightarrow> l
      | None \<Rightarrow> c)"

definition ToLower :: "string \<Rightarrow> string" where
  "ToLower s = map lower_byte s"

text \<open>The decimal digits of \<open>%d\<close> for a number that is not negative.\<close>

fun itoa :: "nat \<Rightarrow> string" where
  "itoa n =
     (if n < 10 then [''0123456789'' ! n]
      else itoa (n div 10) @ [''0123456789'' ! (n mod 10)])"

declare itoa.simps [simp del]

text \<open>A number that is not negative in at least \<open>w\<close> digits (Go's \<open>appendInt\<close>).\<close>

definition pad :: "nat \<Rightarrow> nat \<Rightarrow> string" where
  "pad w n = replicate (w - length (itoa n)) CHR ''0'' @ itoa n"

text \<open>
  The order of SQLite on text (collation \<open>BINARY\<close>): byte by byte, and a proper prefix
  comes first.
\<close>

fun text_less :: "string \<Rightarrow> string \<Rightarrow> bool" where
  "text_less [] [] = False"
| "text_less [] (y # ys) = True"
| "text_less (x # xs) [] = False"
| "text_less (x # xs) (y # ys) =
     ((of_char x :: nat) < of_char y \<or> (x = y \<and> text_less xs ys))"

subsection \<open>Data model\<close>

text \<open>
  A \<open>time.Time\<close> as a clock gives it: the date and the time of day in the zone of the
  clock, and the offset of that zone, in seconds east of UTC. (Years are those of four
  digits and more.)
\<close>

record Time =
  year_of :: nat
  month_of :: nat
  day_of :: nat
  hour_of :: nat
  minute_of :: nat
  second_of :: nat
  nanosecond_of :: nat
  zone_offset :: int

text \<open>The struct \<open>Listing\<close>.\<close>

record Listing =
  Title :: string
  Price :: string
  City :: string
  Posted :: Time
  ListingURL :: string

text \<open>
  A row of the table \<open>listings\<close> created by \<open>initDB\<close>: \<open>id INTEGER PRIMARY KEY
  AUTOINCREMENT\<close>, four data columns and \<open>listing_url TEXT UNIQUE\<close>; \<open>posted\<close>
  holds text. The database is the rows of that table, in insertion order, and the
  largest id given out so far (SQLite's \<open>sqlite_sequence\<close> entry of the table).
\<close>

record row =
  row_id :: nat
  title :: string
  price :: string
  city :: string
  posted :: string
  listing_url :: string

record database =
  rows :: "row list"
  sqlite_sequence :: nat

text \<open>
  One element matched by the selector \<open>li.cl-search-result\<close>, as the extraction reads
  it through goquery: \<open>s.Attr("title")\<close>, \<open>s.Find("a").Attr("href")\<close> (absent when
  there is no anchor or the first anchor has no \<open>href\<close>), \<open>s.Find(".priceinfo").Text()\<close>
  and \<open>s.Find(".meta").Text()\<close> (the empty string when nothing matches).
\<close>

record element =
  attr_title :: "string option"
  a_href :: "string option"
  priceinfo_text :: string
  meta_text :: string

text \<open>
  What \<open>chromedp.Run\<close> and \<open>goquery.NewDocumentFromReader\<close> give for one tick: an
  error of the first, an error of the second, or the document's matches of
  \<open>li.cl-search-result\<close> in document order.
\<close>

datatype page = LoadFailed string | ParseFailed string | Document "element list"

text \<open>
  What the HTTP client gives for one notification: \<open>http.NewRequest\<close> fails,
  \<open>client.Do\<close> fails, or a response with a status code arrives.
\<close>

datatype http_outcome = NewRequestError string | DoError string | StatusCode nat

record request =
  Method :: string
  URL :: string
  Body :: string
  Header :: "(string \<times> string) list"

text \<open>What the program does to the outside, in the order it does it.\<close>

datatype event =
    Exec_insert Listing
  | Exec_delete
  | Client_do request
  | Stdout string
  | Sleep int

text \<open>
  The outside of one tick: the page, \<open>time.Now()\<close> at the i-th matched element, the
  error (if any) of \<open>db.Exec\<close> for the i-th listing, the outcome of the HTTP exchange
  for the i-th listing, the error (if any) of the \<open>DELETE\<close>, and SQLite's \<open>'now'\<close>
  when the \<open>DELETE\<close> runs: the date and time of day in UTC (its zone and its
  nanoseconds are not read).
\<close>

record env =
  page_of :: page
  time_Now :: "nat \<Rightarrow> Time"
  insert_error :: "nat \<Rightarrow> string option"
  http_of :: "nat \<Rightarrow> http_outcome"
  delete_error :: "string option"
  sqlite_now :: Time

definition Second :: int where
  "Second = 1000000000"

definition newline :: string where
  "newline = [CHR 0x0A]"

subsection \<open>The store\<close>

text \<open>
  How go-sqlite3 binds a \<open>time.Time\<close>: as the text of the layout
  \<open>"2006-01-02 15:04:05.999999999-07:00"\<close>, in the zone the value carries. The fraction
  of the second loses its trailing zeros and is left out when it is zero; the zone is
  written as sign, hours and minutes, \<open>+00:00\<close> for UTC.
\<close>

definition fraction :: "nat \<Rightarrow> string" where
  "fraction ns =
     (case rev (dropWhile (\<lambda>c. c = CHR ''0'') (rev (pad 9 ns))) of
        [] \<Rightarrow> []
      | d # ds \<Rightarrow> CHR ''.'' # d # ds)"

definition zone_text :: "int \<Rightarrow> string" where
  "zone_text offset =
     (let zone = nat \<bar>offset\<bar> div 60 in
      (if offset < 0 \<and> 0 < zone then ''-'' else ''+'')
        @ pad 2 (zone div 60) @ '':'' @ pad 2 (zone mod 60))"

definition bind_Time :: "Time \<Rightarrow> string" where
  "bind_Time t =
     pad 4 (year_of t) @ ''-'' @ pad 2 (month_of t) @ ''-'' @ pad 2 (day_of t) @ '' ''
       @ pad 2 (hour_of t) @ '':'' @ pad 2 (minute_of t) @ '':'' @ pad 2 (second_of t)
       @ fraction (nanosecond_of t) @ zone_text (zone_offset t)"

text \<open>
  \<open>INSERT INTO listings (...) VALUES (?, ?, ?, ?, ?) ON CONFLICT(listing_url) DO
  NOTHING\<close>. SQLite takes the next id of the \<open>AUTOINCREMENT\<close> column and records it in
  \<open>sqlite_sequence\<close> before it looks at \<open>listing_url\<close>: when a row with this
  \<open>listing_url\<close> exists no row is affected and the id is spent; otherwise one row is
  appended under that id. The second component is the number of rows affected.
\<close>

definition sql_insert :: "database \<Rightarrow> Listing \<Rightarrow> database \<times> nat" where
  "sql_insert db l =
     (let n = Suc (fold max (map row_id (rows db)) (sqlite_sequence db)) in
      if ListingURL l \<in> set (map listing_url (rows db))
      then (db\<lparr>sqlite_sequence := n\<rparr>, 0)
      else
        (db\<lparr>rows := rows db @
               [\<lparr>row_id = n, title = Title l, price = Price l, city = City l,
                 posted = bind_Time (Posted l), listing_url = ListingURL l\<rparr>],
            sqlite_sequence := n\<rparr>, 1))"

text \<open>
  \<open>insertListing\<close>: the statement is executed; its result (\<open>_\<close>) is dropped and only
  the error is returned. A statement that fails changes nothing.
\<close>

definition insertListing ::
  "string option \<Rightarrow> database \<Rightarrow> Listing \<Rightarrow> database \<times> string option \<times> event list" where
  "insertListing failure db listing =
     (case failure of
        Some err \<Rightarrow> (db, Some err, [Exec_insert listing])
      | None \<Rightarrow> (fst (sql_insert db listing), None, [Exec_insert listing]))"

text \<open>
  SQLite's \<open>datetime('now', '-1 hour')\<close>: the date and time of day in UTC one hour
  before \<open>now\<close>, as the text \<open>YYYY-MM-DD HH:MM:SS\<close>.
\<close>

definition days_in_month :: "nat \<Rightarrow> nat \<Rightarrow> nat" where
  "days_in_month y m =
     (if m = 2 then (if y mod 4 = 0 \<and> (y mod 100 \<noteq> 0 \<or> y mod 400 = 0) then 29 else 28)
      else if m = 4 \<or> m = 6 \<or> m = 9 \<or> m = 11 then 30
      else 31)"

definition hour_before :: "Time \<Rightarrow> Time" where
  "hour_before t =
     (if 0 < hour_of t then t\<lparr>hour_of := hour_of t - 1\<rparr>
      else if 1 < day_of t then t\<lparr>day_of := day_of t - 1, hour_of := 23\<rparr>
      else if 1 < month_of t
        then t\<lparr>month_of := month_of t - 1,
               day_of := days_in_month (year_of t) (month_of t - 1), hour_of := 23\<rparr>
      else t\<lparr>year_of := year_of t - 1, month_of := 12, day_of := 31, hour_of := 23\<rparr>)"

definition datetime :: "Time \<Rightarrow> string" where
  "datetime t =
     pad 4 (year_of t) @ ''-'' @ pad 2 (month_of t) @ ''-'' @ pad 2 (day_of t) @ '' ''
       @ pad 2 (hour_of t) @ '':'' @ pad 2 (minute_of t) @ '':'' @ pad 2 (second_of t)"

text \<open>
  \<open>DELETE FROM listings WHERE posted < datetime('now', '-1 hour')\<close>: both sides are
  text (what go-sqlite3 writes is no number, so the column keeps it as text), and a row
  goes when its \<open>posted\<close> sorts before the text of the right side.
\<close>

definition sql_delete :: "Time \<Rightarrow> database \<Rightarrow> database" where
  "sql_delete now db =
     db\<lparr>rows := filter (\<lambda>r. \<not> text_less (posted r) (datetime (hour_before now))) (rows db)\<rparr>"

definition deleteOldListings ::
  "string option \<Rightarrow> Time \<Rightarrow> database \<Rightarrow> database \<times> string option \<times> event list" where
  "deleteOldListings failure now db =
     (case failure of
        Some err \<Rightarrow> (db, Some err, [Exec_delete])
      | None \<Rightarrow> (sql_delete now db, None, [Exec_delete]))"

text \<open>
  \<open>initDB\<close>: open the file, then \<open>CREATE TABLE IF NOT EXISTS\<close>, which leaves an
  existing table and its rows as they are. The arguments are the errors (if any) of the
  two calls.
\<close>

definition initDB :: "string option \<Rightarrow> string option \<Rightarrow> string + unit" where
  "initDB open_error create_error =
     (case open_error of
        Some err \<Rightarrow> Inl (''failed to open database: '' @ err)
      | None \<Rightarrow>
          (case create_error of
             Some err \<Rightarrow> Inl (''failed to create table: '' @ err)
           | None \<Rightarrow> Inr ()))"

subsection \<open>The extractor\<close>

text \<open>The separator of the meta text, the middle dot U+00B7, in UTF-8.\<close>

definition separator :: string where
  "separator = [CHR 0xC2, CHR 0xB7]"

text \<open>
  The function passed to \<open>Each\<close>, for one element: \<open>Inr None\<close> is the early
  \<open>return\<close>, \<open>Inr (Some l)\<close> the listing appended, \<open>Inl\<close> the run-time panic of
  \<open>strings.Split(metaText, sep)[1]\<close> when the split has fewer than two parts.
\<close>

definition each_element :: "Time \<Rightarrow> element \<Rightarrow> string + Listing option" where
  "each_element now s =
     (let title = (case attr_title s of Some t \<Rightarrow> t | None \<Rightarrow> ''No title'') in
      case a_href s of
        None \<Rightarrow> Inr None
      | Some link \<Rightarrow>
          let price = TrimSpace (priceinfo_text s);
              metaText = TrimSpace (meta_text s);
              parts = Split metaText separator
          in if length parts \<le> 1
             then Inl (''runtime error: index out of range [1] with length ''
                       @ itoa (length parts))
             else
               let city = parts ! 1 in
               Inr (Some \<lparr>Title = title, Price = price, City = TrimSpace city,
                          Posted = now, ListingURL = link\<rparr>))"

text \<open>
  \<open>doc.Find("li.cl-search-result").Each(...)\<close>: the elements in order, the i-th with
  the clock read at it, appending to \<open>listings\<close>; a panic ends everything.
\<close>

fun Each :: "(nat \<Rightarrow> Time) \<Rightarrow> nat \<Rightarrow> element list \<Rightarrow> Listing list \<Rightarrow> string + Listing list" where
  "Each clock i [] listings = Inr listings"
| "Each clock i (s # ss) listings =
     (case each_element (clock i) s of
        Inl panic \<Rightarrow> Inl panic
      | Inr None \<Rightarrow> Each clock (Suc i) ss listings
      | Inr (Some listing) \<Rightarrow> Each clock (Suc i) ss (listings @ [listing]))"

text \<open>
  \<open>scrapeListings\<close> returns the listings and an error (\<open>nil\<close> is \<open>None\<close>), or
  panics (\<open>Inl\<close>).
\<close>

definition scrapeListings ::
  "(nat \<Rightarrow> Time) \<Rightarrow> page \<Rightarrow> string + (Listing list \<times> string option)" where
  "scrapeListings clock p =
     (case p of
        LoadFailed err \<Rightarrow> Inr ([], Some (''failed to load the page: '' @ err))
      | ParseFailed err \<Rightarrow> Inr ([], Some (''failed to parse the page: '' @ err))
      | Document ss \<Rightarrow>
          (case Each clock 0 ss [] of
             Inl panic \<Rightarrow> Inl panic
           | Inr listings \<Rightarrow> Inr (listings, None)))"

subsection \<open>The notifier\<close>

definition ntfyUrl :: string where
  "ntfyUrl = ''https://ntfy.sh/charlottecraig''"

definition new_request :: "string \<Rightarrow> request" where
  "new_request message =
     \<lparr>Method = ''POST'', URL = ntfyUrl, Body = message,
      Header = [(''Title'', ''Craigslist Alert''), (''Priority'', ''high'')]\<rparr>"

definition sendNotification :: "http_outcome \<Rightarrow> string \<Rightarrow> event list" where
  "sendNotification outcome message =
     (case outcome of
        NewRequestError err \<Rightarrow> [Stdout (''Failed to create request: '' @ err @ newline)]
      | DoError err \<Rightarrow>
          [Client_do (new_request message),
           Stdout (''Failed to send notification: '' @ err @ newline)]
      | StatusCode code \<Rightarrow>
          [Client_do (new_request message),
           Stdout (if code \<noteq> 200
                   then ''Failed to send notification: Status code '' @ itoa code @ newline
                   else ''Notification sent: '' @ message @ newline)])"

subsection \<open>The loop\<close>

text \<open>The message of \<open>main\<close>: \<open>"New free or unknown price listing! %s (%s) %s"\<close>.\<close>

definition alert_message :: "Listing \<Rightarrow> string" where
  "alert_message listing =
     ''New free or unknown price listing! '' @ Title listing @ '' ('' @ Price listing
       @ '') '' @ City listing"

text \<open>The condition of \<open>main\<close> on the price.\<close>

definition price_qualifies :: "string \<Rightarrow> bool" where
  "price_qualifies p = (ToLower p = ''free'' \<or> p = [] \<or> p = ''()'')"

text \<open>The body of \<open>for _, listing := range listings\<close>, for the i-th listing.\<close>

definition range_body :: "env \<Rightarrow> nat \<Rightarrow> database \<Rightarrow> Listing \<Rightarrow> database \<times> event list" where
  "range_body e i db listing =
     (case insertListing (insert_error e i) db listing of
        (db', Some err, evs) \<Rightarrow>
          (db', evs @ [Stdout (''Failed to insert listing: '' @ err @ newline)])
      | (db', None, evs) \<Rightarrow>
          (if price_qualifies (Price listing)
           then (db', evs @ sendNotification (http_of e i) (alert_message listing))
           else (db', evs)))"

fun range_listings :: "env \<Rightarrow> nat \<Rightarrow> Listing list \<Rightarrow> database \<Rightarrow> database \<times> event list" where
  "range_listings e i [] db = (db, [])"
| "range_listings e i (listing # rest) db =
     (case range_body e i db listing of
        (db1, evs1) \<Rightarrow>
          (case range_listings e (Suc i) rest db1 of
             (db2, evs2) \<Rightarrow> (db2, evs1 @ evs2)))"

text \<open>\<open>time.Duration(2+len(listings)%3) * time.Second\<close>.\<close>

definition delay :: "nat \<Rightarrow> int" where
  "delay n = (2 + int n mod 3) * Second"

text \<open>
  One tick of the ticker, the body of \<open>case <-checkTicker.C\<close>. The first component is
  \<open>Inl\<close> when the process died of a panic and the database otherwise.
\<close>

definition tick :: "env \<Rightarrow> database \<Rightarrow> (string + database) \<times> event list" where
  "tick e db =
     (case scrapeListings (time_Now e) (page_of e) of
        Inl panic \<Rightarrow> (Inl panic, [])
      | Inr (listings, Some err) \<Rightarrow>
          (Inr db, [Stdout (''Failed to scrape listings: '' @ err @ newline)])
      | Inr (listings, None) \<Rightarrow>
          (case range_listings e 0 listings db of
             (db1, evs1) \<Rightarrow>
               (case deleteOldListings (delete_error e) (sqlite_now e) db1 of
                  (db2, Some err, evs2) \<Rightarrow>
                    (Inr db2,
                     evs1 @ evs2 @ [Stdout (''Failed to delete old listings: '' @ err @ newline),
                                    Sleep (delay (length listings))])
                | (db2, None, evs2) \<Rightarrow>
                    (Inr db2, evs1 @ evs2 @ [Sleep (delay (length listings))]))))"

text \<open>The \<open>for\<close> loop of \<open>main\<close> over the ticks that arrive.\<close>

fun ticks :: "env list \<Rightarrow> database \<Rightarrow> (string + database) \<times> event list" where
  "ticks [] db = (Inr db, [])"
| "ticks (e # es) db =
     (case tick e db of
        (Inl panic, evs) \<Rightarrow> (Inl panic, evs)
      | (Inr db1, evs1) \<Rightarrow>
          (case ticks es db1 of (result, evs2) \<Rightarrow> (result, evs1 @ evs2)))"

text \<open>\<open>main\<close>: when \<open>initDB\<close> fails the program prints and returns before the loop.\<close>

definition main :: "string option \<Rightarrow> string option \<Rightarrow> env list \<Rightarrow> database
    \<Rightarrow> (string + database) \<times> event list" where
  "main open_error create_error es db =
     (case initDB open_error create_error of
        Inl err \<Rightarrow> (Inr db, [Stdout (''Failed to initialize database: '' @ err @ newline)])
      | Inr _ \<Rightarrow> ticks es db)"

section \<open>The Node program \<open>main.js\<close>\<close>

text \<open>
  The repository's second program does the same work with Puppeteer and node-sqlite3.
  Its strings are written as UTF-8 bytes here as well. Its statements and requests are
  asynchronous; each is modelled together with its callback, in the order the program
  issues them.
\<close>

subsection \<open>Data model\<close>

text \<open>The objects pushed by \<open>scrapeListings\<close>; \<open>posted\<close> is text of the page.\<close>

record listing_js =
  title_js :: string
  price_js :: string
  city_js :: string
  posted_js :: string
  listing_url_js :: string

text \<open>A row of this program's table, which has the column \<open>notified BOOLEAN DEFAULT 0\<close>.\<close>

record row_js =
  col_id :: nat
  col_title :: string
  col_price :: string
  col_city :: string
  col_posted :: string
  col_listing_url :: string
  col_notified :: bool

record database_js =
  rows_js :: "row_js list"
  sqlite_sequence_js :: nat

text \<open>
  One element of \<open>document.querySelectorAll('li.cl-search-result')\<close>:
  \<open>getAttribute('title')\<close>, the \<open>textContent\<close> of the first \<open>.priceinfo\<close> and of the
  first \<open>.meta\<close> below it, and \<open>getAttribute('href')\<close> of its first anchor; \<open>None\<close>
  is JavaScript's \<open>null\<close>, for the attribute or for the element that would carry it.
\<close>

record item_js =
  getAttribute_title :: "string option"
  priceinfo_textContent :: "string option"
  meta_textContent :: "string option"
  a_getAttribute_href :: "string option"

text \<open>
  What \<open>fetch\<close> gives: the promise is rejected, or a response arrives, with its
  status and its text.
\<close>

datatype fetch_outcome = Rejected string | Resolved nat string

datatype event_js =
    Run_insert listing_js
  | Run_update string
  | Fetch request
  | Console_error string
  | Console_log string

text \<open>
  The outside of one \<open>processListings\<close>: the error (if any) of the i-th \<open>INSERT\<close>,
  the outcome of the i-th \<open>fetch\<close>, and the error (if any) of the i-th \<open>UPDATE\<close>.
\<close>

record env_js =
  insert_error_js :: "nat \<Rightarrow> string option"
  fetch_of :: "nat \<Rightarrow> fetch_outcome"
  update_error_js :: "nat \<Rightarrow> string option"

subsection \<open>Extraction\<close>

text \<open>
  The separator as \<open>main.js\<close> has it: the character U+8DEF, in UTF-8. (It is not the
  middle dot of the Go program.)
\<close>

definition separator_js :: string where
  "separator_js = [CHR 0xE8, CHR 0xB7, CHR 0xAF]"

text \<open>
  The white space and line terminators that \<open>String.prototype.trim\<close> removes: those of
  Go without U+0085, and U+FEFF.
\<close>

definition white_space_js :: "string list" where
  "white_space_js =
     [[CHR 0x09], [CHR 0x0A], [CHR 0x0B], [CHR 0x0C], [CHR 0x0D], [CHR 0x20],
      [CHR 0xC2, CHR 0xA0], [CHR 0xE1, CHR 0x9A, CHR 0x80],
      [CHR 0xE2, CHR 0x80, CHR 0x80], [CHR 0xE2, CHR 0x80, CHR 0x81],
      [CHR 0xE2, CHR 0x80, CHR 0x82], [CHR 0xE2, CHR 0x80, CHR 0x83],
      [CHR 0xE2, CHR 0x80, CHR 0x84], [CHR 0xE2, CHR 0x80, CHR 0x85],
      [CHR 0xE2, CHR 0x80, CHR 0x86], [CHR 0xE2, CHR 0x80, CHR 0x87],
      [CHR 0xE2, CHR 0x80, CHR 0x88], [CHR 0xE2, CHR 0x80, CHR 0x89],
      [CHR 0xE2, CHR 0x80, CHR 0x8A], [CHR 0xE2, CHR 0x80, CHR 0xA8],
      [CHR 0xE2, CHR 0x80, CHR 0xA9], [CHR 0xE2, CHR 0x80, CHR 0xAF],
      [CHR 0xE2, CHR 0x81, CHR 0x9F], [CHR 0xE3, CHR 0x80, CHR 0x80],
      [CHR 0xEF, CHR 0xBB, CHR 0xBF]]"

definition trim_js :: "string \<Rightarrow> string" where
  "trim_js s =
     rev (TrimLeftIn (map rev white_space_js) (rev (TrimLeftIn white_space_js s)))"

text \<open>
  The function given to \<open>forEach\<close>. An index past the end of the split is
  \<open>undefined\<close>, which like the empty string selects the second branch of \<open>? :\<close>; so
  does \<open>null\<close> and the empty string for \<open>||\<close>.
\<close>

definition forEach_item :: "item_js \<Rightarrow> listing_js" where
  "forEach_item item =
     (let title = (case getAttribute_title item of
                     None \<Rightarrow> ''No title''
                   | Some t \<Rightarrow> if t = [] then ''No title'' else t);
          price = (case priceinfo_textContent item of None \<Rightarrow> [] | Some t \<Rightarrow> trim_js t);
          metaText = (case meta_textContent item of None \<Rightarrow> [] | Some t \<Rightarrow> trim_js t);
          city = (case drop 1 (Split metaText separator_js) of
                    [] \<Rightarrow> ''Unknown City''
                  | p # _ \<Rightarrow> if p = [] then ''Unknown City'' else trim_js p);
          posted = (case Split metaText separator_js of
                      [] \<Rightarrow> []
                    | p # _ \<Rightarrow> if p = [] then [] else trim_js p);
          link = (case a_getAttribute_href item of None \<Rightarrow> [] | Some h \<Rightarrow> h)
      in \<lparr>title_js = title, price_js = price, city_js = city, posted_js = posted,
          listing_url_js = (if link = [] then [] else link)\<rparr>)"

text \<open>
  The function evaluated in the page by \<open>scrapeListings\<close>: every item is pushed. (The
  browser calls around it are left out.)
\<close>

definition scrapeListings_js :: "item_js list \<Rightarrow> listing_js list" where
  "scrapeListings_js items = map forEach_item items"

subsection \<open>Store and notification\<close>

definition sql_insert_js :: "database_js \<Rightarrow> listing_js \<Rightarrow> database_js \<times> nat" where
  "sql_insert_js db l =
     (let n = Suc (fold max (map col_id (rows_js db)) (sqlite_sequence_js db)) in
      if listing_url_js l \<in> set (map col_listing_url (rows_js db))
      then (db\<lparr>sqlite_sequence_js := n\<rparr>, 0)
      else
        (db\<lparr>rows_js := rows_js db @
               [\<lparr>col_id = n, col_title = title_js l, col_price = price_js l,
                 col_city = city_js l, col_posted = posted_js l,
                 col_listing_url = listing_url_js l, col_notified = False\<rparr>],
            sqlite_sequence_js := n\<rparr>, 1))"

text \<open>\<open>UPDATE listings SET notified = 1 WHERE listing_url = ?\<close>.\<close>

definition markAsNotified_js ::
  "string option \<Rightarrow> database_js \<Rightarrow> string \<Rightarrow> database_js \<times> event_js list" where
  "markAsNotified_js failure db listing_url' =
     (case failure of
        Some err \<Rightarrow> (db, [Run_update listing_url',
                          Console_error (''Failed to mark as notified: '' @ err)])
      | None \<Rightarrow>
          (db\<lparr>rows_js := map (\<lambda>r. if col_listing_url r = listing_url'
                                   then r\<lparr>col_notified := True\<rparr> else r) (rows_js db)\<rparr>,
           [Run_update listing_url']))"

definition message_js :: "listing_js \<Rightarrow> string" where
  "message_js l =
     title_js l @ '' ('' @ (if price_js l = [] then ''Unknown Price'' else price_js l)
       @ '') '' @ city_js l"

text \<open>
  \<open>sendNotification\<close>: one \<open>fetch\<close>; the status of the response is not read,
  its text is printed after \<open>Notification sent:\<close> whatever it is.
\<close>

definition sendNotification_js :: "fetch_outcome \<Rightarrow> listing_js \<Rightarrow> event_js list" where
  "sendNotification_js outcome l =
     Fetch \<lparr>Method = ''POST'', URL = ''https://ntfy.sh/charlottecraig'',
            Body = message_js l,
            Header = [(''Title'', ''New Craigslist Listing Alert''), (''Priority'', ''high''),
                      (''Actions'', ''view, Open Listing, '' @ listing_url_js l
                                    @ '', clear=true'')]\<rparr>
     # (case outcome of
          Rejected err \<Rightarrow> [Console_error (''Error sending notification: '' @ err)]
        | Resolved status result \<Rightarrow> [Console_log (''Notification sent: '' @ result)])"

text \<open>
  \<open>insertListing\<close> with its callback: \<open>this.changes\<close> is the number of rows the
  statement affected.
\<close>

definition insertListing_js ::
  "env_js \<Rightarrow> nat \<Rightarrow> database_js \<Rightarrow> listing_js \<Rightarrow> database_js \<times> event_js list" where
  "insertListing_js e i db l =
     (case insert_error_js e i of
        Some err \<Rightarrow> (db, [Run_insert l, Console_error (''Failed to insert listing: '' @ err)])
      | None \<Rightarrow>
          (case sql_insert_js db l of
             (db1, changes) \<Rightarrow>
               if changes > 0
               then (if price_js l = [] \<or> ToLower (price_js l) = ''free''
                        \<or> price_js l = ''()''
                     then (case markAsNotified_js (update_error_js e i) db1 (listing_url_js l) of
                             (db2, evs) \<Rightarrow>
                               (db2, Run_insert l # sendNotification_js (fetch_of e i) l @ evs))
                     else (db1, [Run_insert l]))
               else (db1, [Run_insert l])))"

fun for_listing_js ::
  "env_js \<Rightarrow> nat \<Rightarrow> listing_js list \<Rightarrow> database_js \<Rightarrow> database_js \<times> event_js list" where
  "for_listing_js e i [] db = (db, [])"
| "for_listing_js e i (l # rest) db =
     (case insertListing_js e i db l of
        (db1, evs1) \<Rightarrow>
          (case for_listing_js e (Suc i) rest db1 of
             (db2, evs2) \<Rightarrow> (db2, evs1 @ evs2)))"

definition processListings_js ::
  "env_js \<Rightarrow> item_js list \<Rightarrow> database_js \<Rightarrow> database_js \<times> event_js list" where
  "processListings_js e items db = for_listing_js e 0 (scrapeListings_js items) db"

section \<open>Reading a trace\<close>

text \<open>The listings passed to the \<open>INSERT\<close>, the requests sent, the sleeps and the
  number of \<open>DELETE\<close> statements of a list of events.\<close>

fun inserted :: "event list \<Rightarrow> Listing list" where
  "inserted [] = []"
| "inserted (Exec_insert l # evs) = l # inserted evs"
| "inserted (_ # evs) = inserted evs"

fun requests :: "event list \<Rightarrow> request list" where
  "requests [] = []"
| "requests (Client_do r # evs) = r # requests evs"
| "requests (_ # evs) = requests evs"

fun sleeps :: "event list \<Rightarrow> int list" where
  "sleeps [] = []"
| "sleeps (Sleep d # evs) = d # sleeps evs"
| "sleeps (_ # evs) = sleeps evs"

fun deletes :: "event list \<Rightarrow> nat" where
  "deletes [] = 0"
| "deletes (Exec_delete # evs) = Suc (deletes evs)"
| "deletes (_ # evs) = deletes evs"

fun fetches :: "event_js list \<Rightarrow> request list" where
  "fetches [] = []"
| "fetches (Fetch r # evs) = r # fetches evs"
| "fetches (_ # evs) = fetches evs"


fun run_inserts :: "event_js list \<Rightarrow> listing_js list" where
  "run_inserts [] = []"
| "run_inserts (Run_insert l # evs) = l # run_inserts evs"
| "run_inserts (_ # evs) = run_inserts evs"

text \<open>A listing with the time stamp set aside (put to midnight of 1 January 1970, UTC).\<close>

definition without_Posted :: "Listing \<Rightarrow> Listing" where
  "without_Posted l =
     l\<lparr>Posted := \<lparr>year_of = 1970, month_of = 1, day_of = 1, hour_of = 0, minute_of = 0,
                  second_of = 0, nanosecond_of = 0, zone_offset = 0\<rparr>\<rparr>"

text \<open>The elements of a page that have a link, each with its position on the page.\<close>

definition linked :: "element list \<Rightarrow> (nat \<times> element) list" where
  "linked ss = filter (\<lambda>(i, s). a_href s \<noteq> None) (enumerate 0 ss)"

section \<open>Example inputs\<close>

text \<open>
  A result element with a link, a price and a meta text of two parts; the same with a
  meta text that has no separator; one whose \<open>href\<close> is empty; and one without a link.
\<close>

definition sofa_item :: element where
  "sofa_item =
     \<lparr>attr_title = Some ''Sofa'', a_href = Some ''/sofa'', priceinfo_text = '' Free '',
      meta_text = ''5 mins ago'' @ separator @ '' Charlotte''\<rparr>"

definition lamp_item :: element where
  "lamp_item =
     \<lparr>attr_title = Some ''Lamp'', a_href = Some ''/lamp'', priceinfo_text = ''$5'',
      meta_text = ''5 mins ago''\<rparr>"

definition blank_item :: element where
  "blank_item =
     \<lparr>attr_title = Some ''Rug'', a_href = Some [], priceinfo_text = ''$9'',
      meta_text = ''1h ago'' @ separator @ ''Concord''\<rparr>"

definition ad_item :: element where
  "ad_item =
     \<lparr>attr_title = None, a_href = None, priceinfo_text = [], meta_text = []\<rparr>"

definition ad_item_js :: item_js where
  "ad_item_js =
     \<lparr>getAttribute_title = None, priceinfo_textContent = None, meta_textContent = None,
      a_getAttribute_href = None\<rparr>"

text \<open>A clock in UTC that shows 1 January 1970, two o'clock, and one a minute later.\<close>

definition at_two :: "nat \<Rightarrow> Time" where
  "at_two i = \<lparr>year_of = 1970, month_of = 1, day_of = 1, hour_of = 2, minute_of = 0,
               second_of = 0, nanosecond_of = 0, zone_offset = 0\<rparr>"

definition after_two :: "nat \<Rightarrow> Time" where
  "after_two i = \<lparr>year_of = 1970, month_of = 1, day_of = 1, hour_of = 2, minute_of = 1,
                  second_of = 0, nanosecond_of = 0, zone_offset = 0\<rparr>"

definition sofa :: Listing where
  "sofa = \<lparr>Title = ''Sofa'', Price = ''Free'', City = ''Charlotte'',
           Posted = \<lparr>year_of = 1970, month_of = 1, day_of = 1, hour_of = 2, minute_of = 0,
                      second_of = 0, nanosecond_of = 0, zone_offset = 0\<rparr>,
           ListingURL = ''/sofa''\<rparr>"

definition couch :: Listing where
  "couch = \<lparr>Title = ''Couch'', Price = ''$50'', City = ''Concord'',
            Posted = \<lparr>year_of = 1970, month_of = 1, day_of = 1, hour_of = 2, minute_of = 1,
                       second_of = 0, nanosecond_of = 0, zone_offset = 0\<rparr>,
            ListingURL = ''/sofa''\<rparr>"

text \<open>The sofa with no price, in both programs.\<close>

definition unpriced :: Listing where
  "unpriced = \<lparr>Title = ''Sofa'', Price = [], City = ''Charlotte'',
               Posted = \<lparr>year_of = 1970, month_of = 1, day_of = 1, hour_of = 2,
                          minute_of = 0, second_of = 0, nanosecond_of = 0, zone_offset = 0\<rparr>,
               ListingURL = ''/sofa''\<rparr>"

definition unpriced_js :: listing_js where
  "unpriced_js = \<lparr>title_js = ''Sofa'', price_js = [], city_js = ''Charlotte'',
                  posted_js = ''5 mins ago'', listing_url_js = ''/sofa''\<rparr>"

definition no_rows :: database where
  "no_rows = \<lparr>rows = [], sqlite_sequence = 0\<rparr>"

text \<open>
  A database that holds the sofa since ten minutes before two, and a desk since
  midnight, both written by a process in UTC.
\<close>

definition sofa_row :: row where
  "sofa_row = \<lparr>row_id = 2, title = ''Sofa'', price = ''Free'', city = ''Charlotte'',
               posted = ''1970-01-01 01:50:00+00:00'', listing_url = ''/sofa''\<rparr>"

definition desk_row :: row where
  "desk_row = \<lparr>row_id = 1, title = ''Desk'', price = ''$20'', city = ''Charlotte'',
               posted = ''1970-01-01 00:00:00+00:00'', listing_url = ''/desk''\<rparr>"

definition seen_sofa :: database where
  "seen_sofa = \<lparr>rows = [sofa_row], sqlite_sequence = 2\<rparr>"

definition old_desk :: database where
  "old_desk = \<lparr>rows = [desk_row, sofa_row], sqlite_sequence = 2\<rparr>"

definition no_error :: "nat \<Rightarrow> string option" where
  "no_error i = None"

definition locked :: "nat \<Rightarrow> string option" where
  "locked i = Some ''database is locked''"

definition ok_200 :: "nat \<Rightarrow> http_outcome" where
  "ok_200 i = StatusCode 200"

definition busy_429 :: "nat \<Rightarrow> http_outcome" where
  "busy_429 i = StatusCode 429"

text \<open>
  A tick at two o'clock UTC on which nothing fails, for a given page, and ticks on which
  something does.
\<close>

definition calm :: "page \<Rightarrow> env" where
  "calm p = \<lparr>page_of = p, time_Now = at_two, insert_error = no_error, http_of = ok_200,
             delete_error = None,
             sqlite_now = \<lparr>year_of = 1970, month_of = 1, day_of = 1, hour_of = 2,
                           minute_of = 0, second_of = 0, nanosecond_of = 0,
                           zone_offset = 0\<rparr>\<rparr>"

definition stormy :: "page \<Rightarrow> env" where
  "stormy p = \<lparr>page_of = p, time_Now = at_two, insert_error = locked, http_of = busy_429,
               delete_error = Some ''disk I/O error'',
               sqlite_now = \<lparr>year_of = 1970, month_of = 1, day_of = 1, hour_of = 2,
                             minute_of = 0, second_of = 0, nanosecond_of = 0,
                             zone_offset = 0\<rparr>\<rparr>"

definition refused :: "page \<Rightarrow> env" where
  "refused p = \<lparr>page_of = p, time_Now = at_two, insert_error = no_error, http_of = busy_429,
                delete_error = None,
                sqlite_now = \<lparr>year_of = 1970, month_of = 1, day_of = 1, hour_of = 2,
                              minute_of = 0, second_of = 0, nanosecond_of = 0,
                              zone_offset = 0\<rparr>\<rparr>"

text \<open>
  The same instant, 3 November 2026, 12:04:57.8 UTC, as a process in Charlotte reads it
  (07:04:57.8, five hours west of UTC) and as SQLite reads it; and a tick at that instant
  on which nothing fails.
\<close>

definition charlotte_clock :: "nat \<Rightarrow> Time" where
  "charlotte_clock i =
     \<lparr>year_of = 2026, month_of = 11, day_of = 3, hour_of = 7, minute_of = 4,
      second_of = 57, nanosecond_of = 800000000, zone_offset = - 18000\<rparr>"

definition utc_noon :: Time where
  "utc_noon =
     \<lparr>year_of = 2026, month_of = 11, day_of = 3, hour_of = 12, minute_of = 4,
      second_of = 57, nanosecond_of = 800000000, zone_offset = 0\<rparr>"

definition charlotte :: "page \<Rightarrow> env" where
  "charlotte p = \<lparr>page_of = p, time_Now = charlotte_clock, insert_error = no_error,
                  http_of = ok_200, delete_error = None, sqlite_now = utc_noon\<rparr>"

definition sofa_charlotte :: Listing where
  "sofa_charlotte =
     \<lparr>Title = ''Sofa'', Price = ''Free'', City = ''Charlotte'',
      Posted = \<lparr>year_of = 2026, month_of = 11, day_of = 3, hour_of = 7, minute_of = 4,
                 second_of = 57, nanosecond_of = 800000000, zone_offset = - 18000\<rparr>,
      ListingURL = ''/sofa''\<rparr>"

text \<open>
  A row written by a process nine hours east of UTC at 19:00 its time, which is 10:00
  UTC of that day: more than two hours before the instant above.
\<close>

definition tokyo_row :: row where
  "tokyo_row = \<lparr>row_id = 1, title = ''Desk'', price = ''$20'', city = ''Charlotte'',
                posted = ''2026-11-03 19:00:00+09:00'', listing_url = ''/desk''\<rparr>"

definition fetch_ok :: "nat \<Rightarrow> fetch_outcome" where
  "fetch_ok i = Resolved 200 ''ok''"

definition calm_js :: env_js where
  "calm_js = \<lparr>insert_error_js = no_error, fetch_of = fetch_ok,
              update_error_js = no_error\<rparr>"

definition no_rows_js :: database_js where
  "no_rows_js = \<lparr>rows_js = [], sqlite_sequence_js = 0\<rparr>"

section \<open>Evaluation\<close>

lemmas example_defs = sofa_item_def lamp_item_def blank_item_def ad_item_def ad_item_js_def
  at_two_def after_two_def sofa_def couch_def unpriced_def unpriced_js_def no_rows_def
  sofa_row_def desk_row_def seen_sofa_def old_desk_def no_error_def locked_def ok_200_def
  busy_429_def calm_def stormy_def refused_def charlotte_clock_def utc_noon_def
  charlotte_def sofa_charlotte_def tokyo_row_def calm_js_def no_rows_js_def fetch_ok_def

lemmas program_defs = tick_def scrapeListings_def each_element_def range_body_def
  insertListing_def deleteOldListings_def sql_insert_def sql_delete_def sendNotification_def
  new_request_def ntfyUrl_def alert_message_def price_qualifies_def delay_def Second_def
  newline_def separator_def TrimSpace_def white_space_def ToLower_def lower_byte_def
  Split.simps TrimLeftIn.simps itoa.simps Let_def bind_Time_def datetime_def
  hour_before_def days_in_month_def fraction_def zone_text_def pad_def

lemmas program_js_defs = processListings_js_def scrapeListings_js_def forEach_item_def
  insertListing_js_def sql_insert_js_def markAsNotified_js_def sendNotification_js_def
  message_js_def trim_js_def white_space_js_def separator_js_def Split.simps
  TrimLeftIn.simps Let_def ToLower_def lower_byte_def

section \<open>Facts about traces\<close>

lemma inserted_append [simp]: "inserted (xs @ ys) = inserted xs @ inserted ys"
  by (induction xs rule: inserted.induct) simp_all

lemma requests_append [simp]: "requests (xs @ ys) = requests xs @ requests ys"
  by (induction xs rule: requests.induct) simp_all

lemma sleeps_append [simp]: "sleeps (xs @ ys) = sleeps xs @ sleeps ys"
  by (induction xs rule: sleeps.induct) simp_all

lemma deletes_append [simp]: "deletes (xs @ ys) = deletes xs + deletes ys"
  by (induction xs rule: deletes.induct) simp_all

lemma run_inserts_append [simp]: "run_inserts (xs @ ys) = run_inserts xs @ run_inserts ys"
  by (induction xs rule: run_inserts.induct) simp_all

lemma sendNotification_projections [simp]:
  "inserted (sendNotification h m) = []"
  "deletes (sendNotification h m) = 0"
  "sleeps (sendNotification h m) = []"
  by (simp_all add: sendNotification_def split: http_outcome.split)

lemma range_body_projections [simp]:
  "inserted (snd (range_body e i db l)) = [l]"
  "deletes (snd (range_body e i db l)) = 0"
  "sleeps (snd (range_body e i db l)) = []"
  by (simp_all add: range_body_def insertListing_def split: option.split)

lemma range_listings_projections [simp]:
  "inserted (snd (range_listings e i ls db)) = ls"
  "deletes (snd (range_listings e i ls db)) = 0"
  "sleeps (snd (range_listings e i ls db)) = []"
  by (induction ls arbitrary: i db) (simp_all add: split_beta)

lemma run_inserts_insertListing_js [simp]:
  "run_inserts (snd (insertListing_js e i db l)) = [l]"
  by (simp add: insertListing_js_def sendNotification_js_def markAsNotified_js_def split_beta
           split: option.split fetch_outcome.split)

lemma run_inserts_for_listing_js [simp]:
  "run_inserts (snd (for_listing_js e i ls db)) = ls"
  by (induction ls arbitrary: i db) (simp_all add: split_beta)

section \<open>The store\<close>

lemma sql_insert_known:
  "ListingURL l \<in> set (map listing_url (rows db)) \<Longrightarrow>
   rows (fst (sql_insert db l)) = rows db \<and> snd (sql_insert db l) = 0"
  by (simp add: sql_insert_def Let_def)

lemma sql_insert_urls:
  "set (map listing_url (rows (fst (sql_insert db l)))) =
   insert (ListingURL l) (set (map listing_url (rows db)))"
  by (auto simp: sql_insert_def Let_def)

lemma sql_insert_distinct:
  "distinct (map listing_url (rows db)) \<Longrightarrow>
   distinct (map listing_url (rows (fst (sql_insert db l))))"
  by (auto simp: sql_insert_def Let_def)

lemma filter_url_absent:
  "u \<notin> set (map listing_url rs) \<Longrightarrow> filter (\<lambda>r. listing_url r = u) rs = []"
  by (induction rs) auto

lemma filter_url_distinct:
  "distinct (map listing_url rs) \<Longrightarrow> u \<in> set (map listing_url rs) \<Longrightarrow>
   length (filter (\<lambda>r. listing_url r = u) rs) = 1"
proof (induction rs)
  case Nil
  then show ?case by simp
next
  case (Cons r rs)
  show ?case
  proof (cases "listing_url r = u")
    case True
    with Cons.prems have "u \<notin> set (map listing_url rs)" by auto
    then have "filter (\<lambda>r. listing_url r = u) rs = []" by (rule filter_url_absent)
    with True show ?thesis by simp
  next
    case False
    with Cons show ?thesis by auto
  qed
qed

text \<open>
  What \<open>insertListing\<close> does to the rows when it is called twice, without a failure, for
  the same \<open>listing_url\<close>, on a table whose URLs are distinct (as the \<open>UNIQUE\<close> column
  has them): the second call leaves the rows as the first left them, one row has that
  URL, and it carries the fields of the first call when that created it, or the rows are
  as before both calls. Both calls return no error.
\<close>

lemma insertListing_same_url:
  assumes same: "ListingURL l2 = ListingURL l1"
    and uniq: "distinct (map listing_url (rows db))"
  shows "rows (fst (insertListing None (fst (insertListing None db l1)) l2)) =
           rows (fst (insertListing None db l1))
    \<and> length (filter (\<lambda>r. listing_url r = ListingURL l1)
         (rows (fst (insertListing None (fst (insertListing None db l1)) l2)))) = 1
    \<and> (ListingURL l1 \<notin> set (map listing_url (rows db)) \<longrightarrow>
         (\<exists>n. filter (\<lambda>r. listing_url r = ListingURL l1)
                 (rows (fst (insertListing None (fst (insertListing None db l1)) l2))) =
               [\<lparr>row_id = n, title = Title l1, price = Price l1, city = City l1,
                 posted = bind_Time (Posted l1), listing_url = ListingURL l1\<rparr>]))
    \<and> (ListingURL l1 \<in> set (map listing_url (rows db)) \<longrightarrow>
         rows (fst (insertListing None (fst (insertListing None db l1)) l2)) = rows db)
    \<and> fst (snd (insertListing None db l1)) = None
    \<and> fst (snd (insertListing None (fst (insertListing None db l1)) l2)) = None"
proof -
  let ?db1 = "fst (sql_insert db l1)"
  have present: "ListingURL l2 \<in> set (map listing_url (rows ?db1))"
    unfolding sql_insert_urls same by simp
  then have second: "rows (fst (sql_insert ?db1 l2)) = rows ?db1"
    by (simp add: sql_insert_known del: set_map)
  have d1: "distinct (map listing_url (rows ?db1))" using uniq by (rule sql_insert_distinct)
  have one: "length (filter (\<lambda>r. listing_url r = ListingURL l1) (rows ?db1)) = 1"
    using d1 present same by (simp add: filter_url_distinct del: set_map)
  have new: "ListingURL l1 \<notin> set (map listing_url (rows db)) \<Longrightarrow>
      (\<exists>n. filter (\<lambda>r. listing_url r = ListingURL l1) (rows ?db1) =
        [\<lparr>row_id = n, title = Title l1, price = Price l1, city = City l1,
          posted = bind_Time (Posted l1), listing_url = ListingURL l1\<rparr>])"
    using filter_url_absent [of "ListingURL l1" "rows db"]
    by (simp add: sql_insert_def Let_def del: set_map)
  have old: "ListingURL l1 \<in> set (map listing_url (rows db)) \<Longrightarrow> rows ?db1 = rows db"
    by (simp add: sql_insert_known del: set_map)
  show ?thesis using second one new old by (simp add: insertListing_def del: set_map)
qed

text \<open>
  The same statement in \<open>main.js\<close>: for a known \<open>listing_url\<close> \<open>this.changes\<close> is 0,
  and the callback of \<open>insertListing\<close> then sends nothing and leaves the rows alone.
\<close>

lemma sql_insert_js_known:
  "listing_url_js l \<in> set (map col_listing_url (rows_js db)) \<Longrightarrow>
   rows_js (fst (sql_insert_js db l)) = rows_js db \<and> snd (sql_insert_js db l) = 0"
  by (simp add: sql_insert_js_def Let_def)

lemma insertListing_js_known:
  "insert_error_js e i = None \<Longrightarrow>
   listing_url_js l \<in> set (map col_listing_url (rows_js db)) \<Longrightarrow>
   snd (insertListing_js e i db l) = [Run_insert l]
   \<and> rows_js (fst (insertListing_js e i db l)) = rows_js db"
  by (simp add: insertListing_js_def sql_insert_js_known split_beta del: set_map)

text \<open>
  C2 fails in \<open>craigslist_bot.go\<close> in its last part: the sofa is inserted into the
  empty table, then a couch with the same \<open>listing_url\<close>. The table ends with one row,
  which carries the fields of the sofa, and the statement affects one row the first time
  and none the second; but \<open>insertListing\<close> returns the same thing both times, no
  error, and so reports nothing about which call created the row.
\<close>

theorem go_insert_reports_nothing:
  "insertListing None no_rows sofa =
     (\<lparr>rows = [\<lparr>row_id = 1, title = ''Sofa'', price = ''Free'', city = ''Charlotte'',
                 posted = ''1970-01-01 02:00:00+00:00'', listing_url = ''/sofa''\<rparr>],
       sqlite_sequence = 1\<rparr>,
      None, [Exec_insert sofa])
   \<and> insertListing None (fst (insertListing None no_rows sofa)) couch =
     (\<lparr>rows = [\<lparr>row_id = 1, title = ''Sofa'', price = ''Free'', city = ''Charlotte'',
                 posted = ''1970-01-01 02:00:00+00:00'', listing_url = ''/sofa''\<rparr>],
       sqlite_sequence = 2\<rparr>,
      None, [Exec_insert couch])
   \<and> snd (sql_insert no_rows sofa) = 1
   \<and> snd (sql_insert (fst (insertListing None no_rows sofa)) couch) = 0
   \<and> fst (snd (insertListing None no_rows sofa)) =
       fst (snd (insertListing None (fst (insertListing None no_rows sofa)) couch))"
  by (simp add: example_defs program_defs)

text \<open>
  C6: for every number of listings the delay computed at the end of a tick is at least
  2 seconds and less than 2 + 3 = 5 seconds.
\<close>

theorem delay_bounds: "2 * Second \<le> delay n \<and> delay n < (2 + 3) * Second"
  by (simp add: delay_def Second_def)

section \<open>The extractor\<close>

lemma each_element_url:
  "each_element now s = Inr (Some l) \<Longrightarrow> a_href s = Some (ListingURL l)"
  by (auto simp: each_element_def Let_def split: option.splits if_splits)

lemma each_element_Posted:
  "each_element now s = Inr (Some l) \<Longrightarrow> Posted l = now"
  by (auto simp: each_element_def Let_def split: option.splits if_splits)

lemma each_element_no_link: "a_href s = None \<Longrightarrow> each_element now s = Inr None"
  by (simp add: each_element_def)

lemma each_element_skip: "each_element now s = Inr None \<Longrightarrow> a_href s = None"
  by (auto simp: each_element_def Let_def split: option.splits if_splits)

lemma Each_urls:
  "Each clock i ss acc = Inr ls \<Longrightarrow>
   map ListingURL ls = map ListingURL acc @ List.map_filter a_href ss"
proof (induction ss arbitrary: i acc)
  case Nil
  then show ?case by (simp add: map_filter_simps)
next
  case (Cons s ss)
  show ?case
  proof (cases "each_element (clock i) s")
    case (Inl p)
    with Cons.prems show ?thesis by simp
  next
    case (Inr r)
    show ?thesis
    proof (cases r)
      case None
      with Inr have "a_href s = None" by (simp add: each_element_skip)
      moreover from Cons.prems Inr None have "Each clock (Suc i) ss acc = Inr ls" by simp
      ultimately show ?thesis using Cons.IH by (simp add: map_filter_simps)
    next
      case (Some l)
      with Inr have "a_href s = Some (ListingURL l)" by (simp add: each_element_url)
      moreover from Cons.prems Inr Some have "Each clock (Suc i) ss (acc @ [l]) = Inr ls"
        by simp
      ultimately show ?thesis
        using Cons.IH [of "Suc i" "acc @ [l]"] by (simp add: map_filter_simps)
    qed
  qed
qed

lemma Each_Posted:
  "Each clock i ss acc = Inr ls \<Longrightarrow>
   map Posted ls =
     map Posted acc @ map (\<lambda>(j, s). clock j) (filter (\<lambda>(j, s). a_href s \<noteq> None) (enumerate i ss))"
proof (induction ss arbitrary: i acc)
  case Nil
  then show ?case by simp
next
  case (Cons s ss)
  show ?case
  proof (cases "each_element (clock i) s")
    case (Inl p)
    with Cons.prems show ?thesis by simp
  next
    case (Inr r)
    show ?thesis
    proof (cases r)
      case None
      with Inr have "a_href s = None" by (simp add: each_element_skip)
      moreover from Cons.prems Inr None have "Each clock (Suc i) ss acc = Inr ls" by simp
      ultimately show ?thesis using Cons.IH by simp
    next
      case (Some l)
      with Inr have "a_href s = Some (ListingURL l)" and "Posted l = clock i"
        by (simp_all add: each_element_url each_element_Posted)
      moreover from Cons.prems Inr Some have "Each clock (Suc i) ss (acc @ [l]) = Inr ls"
        by simp
      ultimately show ?thesis
        using Cons.IH [of "Suc i" "acc @ [l]"] by simp
    qed
  qed
qed

text \<open>
  In \<open>main.js\<close> a meta text without the separator gives the city \<open>'Unknown City'\<close>;
  nothing is indexed out of range.
\<close>

lemma forEach_item_city_fallback:
  "Split (case meta_textContent item of None \<Rightarrow> [] | Some t \<Rightarrow> trim_js t) separator_js = [p]
   \<Longrightarrow> city_js (forEach_item item) = ''Unknown City''"
  by (simp add: forEach_item_def Let_def)

text \<open>
  C3, as the claim has it, fails in \<open>main.js\<close>: an item without an anchor is pushed
  with the empty string as its \<open>listing_url\<close>, and \<open>processListings\<close> passes that
  record to the \<open>INSERT\<close>, which stores it.
\<close>

theorem js_keeps_item_without_link:
  "scrapeListings_js [ad_item_js] =
     [\<lparr>title_js = ''No title'', price_js = [], city_js = ''Unknown City'', posted_js = [],
       listing_url_js = []\<rparr>]
   \<and> run_inserts (snd (processListings_js calm_js [ad_item_js] no_rows_js)) =
     [\<lparr>title_js = ''No title'', price_js = [], city_js = ''Unknown City'', posted_js = [],
       listing_url_js = []\<rparr>]
   \<and> map col_listing_url (rows_js (fst (processListings_js calm_js [ad_item_js] no_rows_js)))
     = [[]]"
  by (simp add: example_defs program_js_defs)

text \<open>
  C3, amended. In \<open>craigslist_bot.go\<close> an element without the link (no anchor, or no
  \<open>href\<close> on the first anchor) is skipped by an early return, whatever else it holds,
  and the URL of a listing is the value of the \<open>href\<close> of its element, the empty
  string when the \<open>href\<close> is empty. Every listing passed to the \<open>INSERT\<close> during a
  tick carries the link of an element of the page that has one; when \<open>scrapeListings\<close>
  returns, its listings carry the links of all such elements, in order, and so do the
  listings passed to the \<open>INSERT\<close> of a tick that ends with the loop alive. In
  \<open>main.js\<close> an item without the link becomes a record with the empty \<open>listing_url\<close>,
  and every record of the page is passed to the \<open>INSERT\<close>.
\<close>

theorem missing_link_never_inserted:
  assumes "page_of e = Document ss"
  shows "(a_href s = None \<longrightarrow> each_element now s = Inr None)
    \<and> (each_element now s = Inr (Some l) \<longrightarrow> a_href s = Some (ListingURL l))
    \<and> (scrapeListings (time_Now e) (page_of e) = Inr (ls, err) \<longrightarrow>
          err = None \<and> map ListingURL ls = List.map_filter a_href ss)
    \<and> set (map ListingURL (inserted (snd (tick e db)))) \<subseteq> set (List.map_filter a_href ss)
    \<and> map ListingURL (inserted (snd (tick e db))) =
          (if isl (fst (tick e db)) then [] else List.map_filter a_href ss)
    \<and> (a_getAttribute_href item = None \<longrightarrow> listing_url_js (forEach_item item) = [])
    \<and> run_inserts (snd (processListings_js e_js items db_js)) = map forEach_item items"
proof -
  have a: "a_href s = None \<longrightarrow> each_element now s = Inr None"
    by (simp add: each_element_no_link)
  have a': "each_element now s = Inr (Some l) \<longrightarrow> a_href s = Some (ListingURL l)"
    by (simp add: each_element_url)
  have b: "scrapeListings (time_Now e) (page_of e) = Inr (ls, err) \<longrightarrow>
          err = None \<and> map ListingURL ls = List.map_filter a_href ss" for ls err
    using assms by (auto simp: scrapeListings_def split: sum.splits dest: Each_urls)
  have c: "map ListingURL (inserted (snd (tick e db))) =
          (if isl (fst (tick e db)) then [] else List.map_filter a_href ss)"
  proof (cases "scrapeListings (time_Now e) (page_of e)")
    case (Inl p)
    then show ?thesis by (simp add: tick_def)
  next
    case (Inr r)
    obtain ls' err' where r: "r = (ls', err')" by (cases r)
    with Inr b have err: "err' = None"
      and urls: "map ListingURL ls' = List.map_filter a_href ss"
      by auto
    have "inserted (snd (range_listings e 0 ls' db)) = ls'" by simp
    then show ?thesis using Inr r err urls
      by (simp add: tick_def deleteOldListings_def split_beta split: option.split)
  qed
  have c': "set (map ListingURL (inserted (snd (tick e db)))) \<subseteq> set (List.map_filter a_href ss)"
    unfolding c by simp
  have d: "a_getAttribute_href item = None \<longrightarrow> listing_url_js (forEach_item item) = []"
    by (simp add: forEach_item_def Let_def)
  have f: "run_inserts (snd (processListings_js e_js items db_js)) = map forEach_item items"
    by (simp add: processListings_js_def scrapeListings_js_def)
  from a a' b c c' d f show ?thesis by blast
qed

theorem missing_link_never_inserted_witness:
  "page_of (calm (Document [ad_item, blank_item, sofa_item])) =
     Document [ad_item, blank_item, sofa_item]
   \<and> a_href ad_item = None
   \<and> each_element (at_two 0) ad_item = Inr None
   \<and> a_href blank_item = Some []
   \<and> each_element (at_two 0) blank_item =
       Inr (Some \<lparr>Title = ''Rug'', Price = ''$9'', City = ''Concord'', Posted = at_two 0,
                  ListingURL = []\<rparr>)
   \<and> scrapeListings (time_Now (calm (Document [ad_item, blank_item, sofa_item])))
        (page_of (calm (Document [ad_item, blank_item, sofa_item]))) =
       Inr ([\<lparr>Title = ''Rug'', Price = ''$9'', City = ''Concord'', Posted = at_two 0,
               ListingURL = []\<rparr>, sofa], None)
   \<and> \<not> isl (fst (tick (calm (Document [ad_item, blank_item, sofa_item])) no_rows))
   \<and> map ListingURL
       (inserted (snd (tick (calm (Document [ad_item, blank_item, sofa_item])) no_rows))) =
        [[], ''/sofa'']
   \<and> a_getAttribute_href ad_item_js = None
   \<and> listing_url_js (forEach_item ad_item_js) = []
   \<and> run_inserts (snd (processListings_js calm_js [ad_item_js] no_rows_js)) =
        [forEach_item ad_item_js]"
proof -
  have p: "page_of (calm (Document [ad_item, blank_item, sofa_item])) =
      Document [ad_item, blank_item, sofa_item]"
    by (simp add: calm_def)
  show ?thesis
    using p
      missing_link_never_inserted [OF p, of ad_item "at_two 0" _ _ None
        no_rows ad_item_js calm_js "[ad_item_js]" no_rows_js]
      missing_link_never_inserted [OF p, of blank_item "at_two 0"
        "\<lparr>Title = ''Rug'', Price = ''$9'', City = ''Concord'', Posted = at_two 0,
          ListingURL = []\<rparr>"]
    by (simp add: example_defs program_defs)
qed

text \<open>
  C4 fails in \<open>craigslist_bot.go\<close>: for an element with a link whose meta text has no
  separator the split has one part, index 1 is out of range, and the panic ends
  \<open>scrapeListings\<close> and with it the whole program: no later tick runs.
\<close>

theorem go_extractor_panics_without_separator:
  "scrapeListings at_two (Document [lamp_item]) =
     Inl ''runtime error: index out of range [1] with length 1''
   \<and> main None None [calm (Document [lamp_item]), calm (Document [sofa_item])] no_rows =
     (Inl ''runtime error: index out of range [1] with length 1'', [])"
  by (simp add: example_defs program_defs main_def initDB_def)

text \<open>
  C5, as the claim has it, fails in \<open>craigslist_bot.go\<close>: \<open>Posted\<close> is
  \<open>time.Now()\<close>, so the same page read at two times gives two different results.
\<close>

theorem extraction_depends_on_clock:
  "scrapeListings at_two (Document [sofa_item]) \<noteq>
   scrapeListings after_two (Document [sofa_item])"
  by (simp add: example_defs program_defs)

lemma each_element_clock:
  "map_sum id (map_option without_Posted) (each_element n1 s) =
   map_sum id (map_option without_Posted) (each_element n2 s)"
  by (simp add: each_element_def Let_def without_Posted_def split: option.split)

lemma Each_clock:
  "map without_Posted acc1 = map without_Posted acc2 \<Longrightarrow>
   map_sum id (map without_Posted) (Each c1 i ss acc1) =
   map_sum id (map without_Posted) (Each c2 j ss acc2)"
proof (induction ss arbitrary: i j acc1 acc2)
  case Nil
  then show ?case by simp
next
  case (Cons s ss)
  have step: "map_sum id (map_option without_Posted) (each_element (c1 i) s) =
              map_sum id (map_option without_Posted) (each_element (c2 j) s)"
    by (rule each_element_clock)
  show ?case
  proof (cases "each_element (c1 i) s")
    case (Inl p)
    with step have "each_element (c2 j) s = Inl p"
      by (cases "each_element (c2 j) s") auto
    with Inl show ?thesis by simp
  next
    case (Inr r)
    show ?thesis
    proof (cases r)
      case None
      with Inr step have "each_element (c2 j) s = Inr None"
        by (cases "each_element (c2 j) s") auto
      with Inr None Cons.IH [OF Cons.prems] show ?thesis by simp
    next
      case (Some l1)
      with Inr step
      have "map_sum id (map_option without_Posted) (each_element (c2 j) s) =
          Inr (Some (without_Posted l1))" by simp
      then obtain l2 where r2: "each_element (c2 j) s = Inr (Some l2)"
        and eq: "without_Posted l1 = without_Posted l2"
        by (cases "each_element (c2 j) s") auto
      from eq Cons.prems
      have "map without_Posted (acc1 @ [l1]) = map without_Posted (acc2 @ [l2])"
        by simp
      from Cons.IH [OF this] Inr Some r2 show ?thesis by simp
    qed
  qed
qed

text \<open>
  C5, amended. In \<open>craigslist_bot.go\<close> two calls on the same page, at whatever times,
  end alike (the same panic, the same error, or listings in the same order) and the
  listings agree in every field but \<open>Posted\<close>; the \<open>Posted\<close> of a listing is what
  the clock of its call showed at its element. In \<open>main.js\<close> the records are made from
  the items of the page and nothing else, one for each item in order, so there the claim
  holds as it stands.
\<close>

theorem extraction_same_up_to_clock:
  "map_sum id (\<lambda>(ls, err). (map without_Posted ls, err)) (scrapeListings clock1 p) =
   map_sum id (\<lambda>(ls, err). (map without_Posted ls, err)) (scrapeListings clock2 p)
   \<and> (scrapeListings clock (Document ss) = Inr (ls, err) \<longrightarrow>
        map Posted ls = map (\<lambda>(i, s). clock i) (linked ss))
   \<and> scrapeListings_js items = map forEach_item items"
proof -
  have same: "map_sum id (\<lambda>(ls, err). (map without_Posted ls, err)) (scrapeListings clock1 p) =
      map_sum id (\<lambda>(ls, err). (map without_Posted ls, err)) (scrapeListings clock2 p)"
  proof (cases p)
    case (Document ss')
    have "map_sum id (map without_Posted) (Each clock1 0 ss' []) =
          map_sum id (map without_Posted) (Each clock2 0 ss' [])"
      by (rule Each_clock) simp
    then show ?thesis using Document
      by (auto simp: scrapeListings_def split: sum.splits)
  qed (simp_all add: scrapeListings_def)
  have time: "scrapeListings clock (Document ss) = Inr (ls, err) \<longrightarrow>
        map Posted ls = map (\<lambda>(i, s). clock i) (linked ss)"
    by (auto simp: scrapeListings_def linked_def split: sum.splits dest: Each_Posted)
  have js: "scrapeListings_js items = map forEach_item items"
    by (simp add: scrapeListings_js_def)
  from same time js show ?thesis by blast
qed

theorem extraction_same_up_to_clock_witness:
  "scrapeListings at_two (Document [ad_item, sofa_item]) = Inr ([sofa], None)
   \<and> scrapeListings after_two (Document [ad_item, sofa_item]) =
       Inr ([sofa\<lparr>Posted := after_two 1\<rparr>], None)
   \<and> without_Posted sofa = without_Posted (sofa\<lparr>Posted := after_two 1\<rparr>)
   \<and> map Posted [sofa] = [at_two 1]
   \<and> linked [ad_item, sofa_item] = [(1, sofa_item)]"
  using extraction_same_up_to_clock [of at_two "Document [ad_item, sofa_item]" after_two
      at_two "[ad_item, sofa_item]" "[sofa]" None]
  by (simp add: example_defs program_defs without_Posted_def linked_def)

section \<open>The loop\<close>

text \<open>
  C1 fails in \<open>craigslist_bot.go\<close>: the sofa is in the table already, the
  \<open>INSERT\<close> affects no row (it only spends an id), and the tick still sends the
  notification, because \<open>insertListing\<close> drops the statement's result and \<open>main\<close>
  looks at the error and the price only.
\<close>

theorem go_notifies_known_listing:
  "sql_insert seen_sofa sofa = (seen_sofa\<lparr>sqlite_sequence := 3\<rparr>, 0)
   \<and> tick (calm (Document [sofa_item])) seen_sofa =
       (Inr (seen_sofa\<lparr>sqlite_sequence := 3\<rparr>),
        [Exec_insert sofa,
         Client_do (new_request ''New free or unknown price listing! Sofa (Free) Charlotte''),
         Stdout (''Notification sent: New free or unknown price listing! Sofa (Free) Charlotte''
                 @ newline),
         Exec_delete,
         Sleep (3 * Second)])"
  by (simp add: example_defs program_defs)

text \<open>
  C10: when the \<open>INSERT\<close> for a listing returns an error, the body of the loop prints
  it and does nothing else for that listing, whatever its price: no request is sent and
  the database is as before. The loop then goes on with the listings that follow.
\<close>

theorem failed_insert_not_notified:
  assumes "insert_error e i = Some err"
  shows "range_body e i db l =
           (db, [Exec_insert l, Stdout (''Failed to insert listing: '' @ err @ newline)])
    \<and> requests (snd (range_body e i db l)) = []
    \<and> range_listings e i (l # rest) db =
           (fst (range_listings e (Suc i) rest db),
            [Exec_insert l, Stdout (''Failed to insert listing: '' @ err @ newline)]
              @ snd (range_listings e (Suc i) rest db))"
  using assms by (simp add: range_body_def insertListing_def split_beta)

theorem failed_insert_not_notified_witness:
  "insert_error ((calm (Document [sofa_item]))\<lparr>insert_error := locked\<rparr>) 0 =
     Some ''database is locked''
   \<and> price_qualifies (Price sofa)
   \<and> range_body ((calm (Document [sofa_item]))\<lparr>insert_error := locked\<rparr>) 0 no_rows sofa =
       (no_rows, [Exec_insert sofa,
                  Stdout (''Failed to insert listing: database is locked'' @ newline)])
   \<and> requests (snd (range_body ((calm (Document [sofa_item]))\<lparr>insert_error := locked\<rparr>)
                       0 no_rows sofa)) = []
   \<and> inserted (snd (range_listings ((calm (Document [sofa_item]))\<lparr>insert_error := locked\<rparr>)
                       0 [sofa, couch] no_rows)) = [sofa, couch]"
proof -
  have h: "insert_error ((calm (Document [sofa_item]))\<lparr>insert_error := locked\<rparr>) 0 =
      Some ''database is locked''"
    by (simp add: calm_def locked_def)
  show ?thesis
    using h failed_insert_not_notified [OF h, of no_rows sofa "[couch]"]
    by (simp add: example_defs program_defs)
qed

lemma range_listings_http:
  "fst (range_listings (e\<lparr>http_of := h\<rparr>) i ls db) = fst (range_listings e i ls db)"
proof (induction ls arbitrary: i db)
  case Nil
  show ?case by simp
next
  case (Cons l ls)
  have "fst (range_body (e\<lparr>http_of := h\<rparr>) i db l) = fst (range_body e i db l)"
    by (simp add: range_body_def insertListing_def split: option.split)
  with Cons.IH show ?case by (simp add: split_beta)
qed

text \<open>
  C9, as the claim has it, fails in \<open>craigslist_bot.go\<close>: for a listing with no price
  the message has nothing between the parentheses. The word \<open>unknown\<close> belongs to the
  fixed opening of every message, with a price or without one; it does not stand in for
  the price.
\<close>

theorem go_message_for_empty_price:
  "alert_message unpriced = ''New free or unknown price listing! Sofa () Charlotte''
   \<and> alert_message sofa = ''New free or unknown price listing! Sofa (Free) Charlotte''"
  by (simp add: example_defs alert_message_def)

text \<open>
  C9, amended. \<open>craigslist_bot.go\<close>: the message is the fixed opening, the title, the
  price between parentheses as it is (nothing, when the price is empty) and the city; it
  is the body of one \<open>POST\<close> to the fixed address with the headers \<open>Title\<close> and
  \<open>Priority: high\<close> and no action. A response whose status is not 200, or a request
  that fails, is answered by one printed line and nothing else: no second request, no
  error passed on; and the database after the body of the loop, and after the whole tick,
  is the same whatever the HTTP client answered. \<open>main.js\<close>: the message is the title,
  the price or \<open>Unknown Price\<close> when it is empty, and the city, sent once with the
  headers \<open>Title\<close>, \<open>Priority: high\<close> and an \<open>Actions\<close> header that opens the
  listing's URL; the status of the response is not read, so every response is printed as
  sent and a rejected request as an error, nothing is sent again, and the database after
  \<open>insertListing\<close> is the same whatever \<open>fetch\<close> gave.
\<close>

theorem notification_soft_failure:
  "alert_message l =
     ''New free or unknown price listing! '' @ Title l @ '' ('' @ Price l @ '') '' @ City l
   \<and> (Price l = [] \<longrightarrow>
        alert_message l = ''New free or unknown price listing! '' @ Title l @ '' () '' @ City l)
   \<and> sublist (Title l) (alert_message l)
   \<and> sublist (Price l) (alert_message l)
   \<and> sublist (City l) (alert_message l)
   \<and> sendNotification (StatusCode code) m =
       [Client_do \<lparr>Method = ''POST'', URL = ''https://ntfy.sh/charlottecraig'', Body = m,
                   Header = [(''Title'', ''Craigslist Alert''), (''Priority'', ''high'')]\<rparr>,
        Stdout (if code = 200 then ''Notification sent: '' @ m @ newline
                else ''Failed to send notification: Status code '' @ itoa code @ newline)]
   \<and> sendNotification (DoError reason) m =
       [Client_do \<lparr>Method = ''POST'', URL = ''https://ntfy.sh/charlottecraig'', Body = m,
                   Header = [(''Title'', ''Craigslist Alert''), (''Priority'', ''high'')]\<rparr>,
        Stdout (''Failed to send notification: '' @ reason @ newline)]
   \<and> (insert_error e i = None \<and> price_qualifies (Price l) \<longrightarrow>
        snd (range_body e i db l) =
          Exec_insert l # sendNotification (http_of e i) (alert_message l))
   \<and> fst (range_body (e\<lparr>http_of := h\<rparr>) i db l) = fst (range_body e i db l)
   \<and> fst (tick (e\<lparr>http_of := h\<rparr>) db) = fst (tick e db)
   \<and> message_js j =
       title_js j @ '' ('' @ (if price_js j = [] then ''Unknown Price'' else price_js j)
         @ '') '' @ city_js j
   \<and> sublist (title_js j) (message_js j)
   \<and> sublist (if price_js j = [] then ''Unknown Price'' else price_js j) (message_js j)
   \<and> sublist (city_js j) (message_js j)
   \<and> sendNotification_js (Resolved status answer) j =
       [Fetch \<lparr>Method = ''POST'', URL = ''https://ntfy.sh/charlottecraig'',
               Body = message_js j,
               Header = [(''Title'', ''New Craigslist Listing Alert''), (''Priority'', ''high''),
                         (''Actions'', ''view, Open Listing, '' @ listing_url_js j
                                       @ '', clear=true'')]\<rparr>,
        Console_log (''Notification sent: '' @ answer)]
   \<and> sendNotification_js (Rejected reason) j =
       [Fetch \<lparr>Method = ''POST'', URL = ''https://ntfy.sh/charlottecraig'',
               Body = message_js j,
               Header = [(''Title'', ''New Craigslist Listing Alert''), (''Priority'', ''high''),
                         (''Actions'', ''view, Open Listing, '' @ listing_url_js j
                                       @ '', clear=true'')]\<rparr>,
        Console_error (''Error sending notification: '' @ reason)]
   \<and> fst (insertListing_js (e_js\<lparr>fetch_of := f\<rparr>) i db_js j) =
       fst (insertListing_js e_js i db_js j)"
proof -
  have m: "alert_message l =
     ''New free or unknown price listing! '' @ Title l @ '' ('' @ Price l @ '') '' @ City l"
    by (simp add: alert_message_def)
  have m0: "Price l = [] \<longrightarrow>
        alert_message l = ''New free or unknown price listing! '' @ Title l @ '' () '' @ City l"
    by (simp add: alert_message_def)
  have t: "sublist (Title l) (alert_message l)"
    unfolding alert_message_def sublist_def by blast
  have p: "sublist (Price l) (alert_message l)"
    unfolding alert_message_def sublist_def
    by (intro exI [of _ "''New free or unknown price listing! '' @ Title l @ '' (''"]
              exI [of _ "'') '' @ City l"]) simp
  have c: "sublist (City l) (alert_message l)"
    unfolding alert_message_def sublist_def
    by (intro exI [of _ "''New free or unknown price listing! '' @ Title l @ '' (''
                          @ Price l @ '') ''"]
              exI [of _ "[]"]) simp
  have s: "sendNotification (StatusCode code) m =
       [Client_do \<lparr>Method = ''POST'', URL = ''https://ntfy.sh/charlottecraig'', Body = m,
                   Header = [(''Title'', ''Craigslist Alert''), (''Priority'', ''high'')]\<rparr>,
        Stdout (if code = 200 then ''Notification sent: '' @ m @ newline
                else ''Failed to send notification: Status code '' @ itoa code @ newline)]"
    by (simp add: sendNotification_def new_request_def ntfyUrl_def)
  have s': "sendNotification (DoError reason) m =
       [Client_do \<lparr>Method = ''POST'', URL = ''https://ntfy.sh/charlottecraig'', Body = m,
                   Header = [(''Title'', ''Craigslist Alert''), (''Priority'', ''high'')]\<rparr>,
        Stdout (''Failed to send notification: '' @ reason @ newline)]"
    by (simp add: sendNotification_def new_request_def ntfyUrl_def)
  have b: "insert_error e i = None \<and> price_qualifies (Price l) \<longrightarrow>
        snd (range_body e i db l) =
          Exec_insert l # sendNotification (http_of e i) (alert_message l)"
    by (simp add: range_body_def insertListing_def)
  have d: "fst (range_body (e\<lparr>http_of := h\<rparr>) i db l) = fst (range_body e i db l)"
    by (simp add: range_body_def insertListing_def split: option.split)
  have k: "fst (tick (e\<lparr>http_of := h\<rparr>) db) = fst (tick e db)"
    using range_listings_http [where e = e and h = h and i = 0 and db = db]
    by (simp add: tick_def deleteOldListings_def split_beta split: sum.split option.split)
  have mj: "message_js j =
       title_js j @ '' ('' @ (if price_js j = [] then ''Unknown Price'' else price_js j)
         @ '') '' @ city_js j"
    by (simp add: message_js_def)
  have tj: "sublist (title_js j) (message_js j)"
    unfolding message_js_def by (rule sublist_append_rightI)
  have pj: "sublist (if price_js j = [] then ''Unknown Price'' else price_js j) (message_js j)"
    unfolding message_js_def sublist_def
    by (intro exI [of _ "title_js j @ '' (''"] exI [of _ "'') '' @ city_js j"]) simp
  have cj: "sublist (city_js j) (message_js j)"
    unfolding message_js_def sublist_def
    by (intro exI [of _ "title_js j @ '' (''
                          @ (if price_js j = [] then ''Unknown Price'' else price_js j)
                          @ '') ''"]
              exI [of _ "[]"]) simp
  have sj: "sendNotification_js (Resolved status answer) j =
       [Fetch \<lparr>Method = ''POST'', URL = ''https://ntfy.sh/charlottecraig'',
               Body = message_js j,
               Header = [(''Title'', ''New Craigslist Listing Alert''), (''Priority'', ''high''),
                         (''Actions'', ''view, Open Listing, '' @ listing_url_js j
                                       @ '', clear=true'')]\<rparr>,
        Console_log (''Notification sent: '' @ answer)]"
    by (simp add: sendNotification_js_def)
  have rj: "sendNotification_js (Rejected reason) j =
       [Fetch \<lparr>Method = ''POST'', URL = ''https://ntfy.sh/charlottecraig'',
               Body = message_js j,
               Header = [(''Title'', ''New Craigslist Listing Alert''), (''Priority'', ''high''),
                         (''Actions'', ''view, Open Listing, '' @ listing_url_js j
                                       @ '', clear=true'')]\<rparr>,
        Console_error (''Error sending notification: '' @ reason)]"
    by (simp add: sendNotification_js_def)
  have dj: "fst (insertListing_js (e_js\<lparr>fetch_of := f\<rparr>) i db_js j) =
       fst (insertListing_js e_js i db_js j)"
    by (simp add: insertListing_js_def split_beta split: option.split)
  from m m0 t p c s s' b d k mj tj pj cj sj rj dj show ?thesis by blast
qed

theorem notification_soft_failure_witness:
  "Price unpriced = []
   \<and> alert_message unpriced = ''New free or unknown price listing! Sofa () Charlotte''
   \<and> insert_error (refused (Document [sofa_item])) 0 = None
   \<and> price_qualifies (Price unpriced)
   \<and> snd (range_body (refused (Document [sofa_item])) 0 no_rows unpriced) =
       [Exec_insert unpriced,
        Client_do (new_request ''New free or unknown price listing! Sofa () Charlotte''),
        Stdout (''Failed to send notification: Status code 429'' @ newline)]
   \<and> fst (tick (calm (Document [sofa_item])) no_rows) =
       fst (tick (refused (Document [sofa_item])) no_rows)
   \<and> message_js unpriced_js = ''Sofa (Unknown Price) Charlotte''
   \<and> sendNotification_js (Resolved 429 ''too many requests'') unpriced_js =
       [Fetch \<lparr>Method = ''POST'', URL = ''https://ntfy.sh/charlottecraig'',
               Body = ''Sofa (Unknown Price) Charlotte'',
               Header = [(''Title'', ''New Craigslist Listing Alert''), (''Priority'', ''high''),
                         (''Actions'', ''view, Open Listing, /sofa, clear=true'')]\<rparr>,
        Console_log ''Notification sent: too many requests'']"
proof -
  have r: "(refused (Document [sofa_item]))\<lparr>http_of := ok_200\<rparr> = calm (Document [sofa_item])"
    by (simp add: refused_def calm_def)
  have q: "Price unpriced = []"
    by (simp add: unpriced_def)
  have n: "insert_error (refused (Document [sofa_item])) 0 = None"
    by (simp add: refused_def no_error_def)
  have w: "price_qualifies (Price unpriced)"
    by (simp add: unpriced_def price_qualifies_def)
  note t = notification_soft_failure [where l = unpriced and code = 429
      and m = "alert_message unpriced" and reason = "[]"
      and e = "refused (Document [sofa_item])" and i = 0 and db = no_rows and h = ok_200
      and j = unpriced_js and status = 429 and answer = "''too many requests''"
      and e_js = calm_js and f = fetch_ok and db_js = no_rows_js, unfolded r]
  from t q have "alert_message unpriced =
      ''New free or unknown price listing! '' @ Title unpriced @ '' () '' @ City unpriced"
    by blast
  then have a: "alert_message unpriced = ''New free or unknown price listing! Sofa () Charlotte''"
    by (simp add: unpriced_def)
  have b: "snd (range_body (refused (Document [sofa_item])) 0 no_rows unpriced) =
       [Exec_insert unpriced,
        Client_do (new_request ''New free or unknown price listing! Sofa () Charlotte''),
        Stdout (''Failed to send notification: Status code 429'' @ newline)]"
  proof -
    from t n w have "snd (range_body (refused (Document [sofa_item])) 0 no_rows unpriced) =
        Exec_insert unpriced
          # sendNotification (http_of (refused (Document [sofa_item])) 0) (alert_message unpriced)"
      by blast
    then show ?thesis
      by (simp add: a refused_def busy_429_def sendNotification_def itoa.simps)
  qed
  have k: "fst (tick (calm (Document [sofa_item])) no_rows) =
       fst (tick (refused (Document [sofa_item])) no_rows)"
    using t by blast
  have mj: "message_js unpriced_js = ''Sofa (Unknown Price) Charlotte''"
  proof -
    from t have "message_js unpriced_js =
        title_js unpriced_js @ '' (''
          @ (if price_js unpriced_js = [] then ''Unknown Price'' else price_js unpriced_js)
          @ '') '' @ city_js unpriced_js"
      by blast
    then show ?thesis by (simp add: unpriced_js_def)
  qed
  have sj: "sendNotification_js (Resolved 429 ''too many requests'') unpriced_js =
       [Fetch \<lparr>Method = ''POST'', URL = ''https://ntfy.sh/charlottecraig'',
               Body = ''Sofa (Unknown Price) Charlotte'',
               Header = [(''Title'', ''New Craigslist Listing Alert''), (''Priority'', ''high''),
                         (''Actions'', ''view, Open Listing, /sofa, clear=true'')]\<rparr>,
        Console_log ''Notification sent: too many requests'']"
    by (simp add: sendNotification_js_def message_js_def unpriced_js_def)
  from q a n w b k mj sj show ?thesis by blast
qed

text \<open>
  What is right in C8: in a tick whose page was scraped, the \<open>DELETE\<close> is executed
  once, after the statements and requests of all listings and before the sleep.
\<close>

lemma expiry_once_after_inserts:
  assumes "scrapeListings (time_Now e) (page_of e) = Inr (listings, None)"
  shows "\<exists>tail. snd (tick e db) = snd (range_listings e 0 listings db) @ Exec_delete # tail
           \<and> deletes tail = 0 \<and> inserted tail = [] \<and> requests tail = []"
    and "deletes (snd (tick e db)) = 1"
  using assms
  by (auto simp: tick_def deleteOldListings_def split_beta split: option.split)

text \<open>
  C8 fails in \<open>craigslist_bot.go\<close> wherever the process does not run in UTC. In
  Charlotte, five hours west, the sofa found at 07:04:57.8 local time is stored with
  \<open>posted = 2026-11-03 07:04:57.8-05:00\<close>; the \<open>DELETE\<close> of the same tick compares
  that text with \<open>2026-11-03 11:04:57\<close>, SQLite's UTC time an hour before, finds it
  smaller and removes the row that was inserted a moment ago. In the other direction, a
  row written nine hours east of UTC, more than two hours old, sorts after that text and
  is kept.
\<close>

theorem go_expiry_compares_local_text:
  "bind_Time (charlotte_clock 0) = ''2026-11-03 07:04:57.8-05:00''
   \<and> datetime (hour_before utc_noon) = ''2026-11-03 11:04:57''
   \<and> rows (fst (range_listings (charlotte (Document [sofa_item])) 0 [sofa_charlotte]
                 no_rows)) =
       [\<lparr>row_id = 1, title = ''Sofa'', price = ''Free'', city = ''Charlotte'',
         posted = ''2026-11-03 07:04:57.8-05:00'', listing_url = ''/sofa''\<rparr>]
   \<and> tick (charlotte (Document [sofa_item])) no_rows =
       (Inr \<lparr>rows = [], sqlite_sequence = 1\<rparr>,
        [Exec_insert sofa_charlotte,
         Client_do (new_request ''New free or unknown price listing! Sofa (Free) Charlotte''),
         Stdout (''Notification sent: New free or unknown price listing! Sofa (Free) Charlotte''
                 @ newline),
         Exec_delete,
         Sleep (3 * Second)])
   \<and> sql_delete utc_noon \<lparr>rows = [tokyo_row], sqlite_sequence = 1\<rparr> =
       \<lparr>rows = [tokyo_row], sqlite_sequence = 1\<rparr>"
  by (simp add: example_defs program_defs)

text \<open>
  C7, as the claim has it, fails: when the page cannot be loaded the tick prints the error
  and \<open>continue\<close>s to the next tick; the sleep at the end of the body is skipped too.
\<close>

theorem failed_fetch_skips_delay:
  "tick (calm (LoadFailed ''timeout'')) seen_sofa =
     (Inr seen_sofa,
      [Stdout (''Failed to scrape listings: failed to load the page: timeout'' @ newline)])
   \<and> sleeps (snd (tick (calm (LoadFailed ''timeout'')) seen_sofa)) = []"
  by (simp add: example_defs program_defs)

text \<open>
  C7, amended: when \<open>scrapeListings\<close> returns an error (the page did not load or did
  not parse) the tick prints it and does nothing else: no \<open>INSERT\<close>, no request, no
  \<open>DELETE\<close> and no sleep, the database is unchanged, and the loop goes on with the next
  tick. And whenever \<open>scrapeListings\<close> returns at all, the tick ends with the loop
  alive, whatever errors the inserts, the requests and the \<open>DELETE\<close> return.
\<close>

theorem failed_fetch_abandons_cycle:
  "(page_of e = LoadFailed err \<longrightarrow>
      tick e db = (Inr db, [Stdout (''Failed to scrape listings: failed to load the page: ''
                                    @ err @ newline)]))
   \<and> (page_of e = ParseFailed err \<longrightarrow>
      tick e db = (Inr db, [Stdout (''Failed to scrape listings: failed to parse the page: ''
                                    @ err @ newline)]))
   \<and> (page_of e = LoadFailed err \<or> page_of e = ParseFailed err \<longrightarrow>
        inserted (snd (tick e db)) = [] \<and> requests (snd (tick e db)) = []
        \<and> deletes (snd (tick e db)) = 0 \<and> sleeps (snd (tick e db)) = []
        \<and> fst (ticks (e # es) db) = fst (ticks es db))
   \<and> (\<not> isl (scrapeListings (time_Now e) (page_of e)) \<longrightarrow> \<not> isl (fst (tick e db)))"
  by (auto simp: tick_def scrapeListings_def deleteOldListings_def split_beta
           split: sum.splits option.splits)

theorem failed_fetch_abandons_cycle_witness:
  "page_of (calm (LoadFailed ''timeout'')) = LoadFailed ''timeout''
   \<and> tick (calm (LoadFailed ''timeout'')) seen_sofa =
       (Inr seen_sofa,
        [Stdout (''Failed to scrape listings: failed to load the page: timeout'' @ newline)])
   \<and> fst (ticks [calm (LoadFailed ''timeout''), calm (Document [sofa_item])] seen_sofa) =
       fst (ticks [calm (Document [sofa_item])] seen_sofa)
   \<and> page_of (calm (ParseFailed ''EOF'')) = ParseFailed ''EOF''
   \<and> tick (calm (ParseFailed ''EOF'')) seen_sofa =
       (Inr seen_sofa,
        [Stdout (''Failed to scrape listings: failed to parse the page: EOF'' @ newline)])
   \<and> \<not> isl (scrapeListings (time_Now (stormy (Document [sofa_item])))
               (page_of (stormy (Document [sofa_item]))))
   \<and> fst (tick (stormy (Document [sofa_item])) seen_sofa) = Inr seen_sofa"
proof -
  have l: "page_of (calm (LoadFailed ''timeout'')) = LoadFailed ''timeout''"
    by (simp add: calm_def)
  have p: "page_of (calm (ParseFailed ''EOF'')) = ParseFailed ''EOF''"
    by (simp add: calm_def)
  have s: "\<not> isl (scrapeListings (time_Now (stormy (Document [sofa_item])))
               (page_of (stormy (Document [sofa_item]))))"
    by (simp add: example_defs program_defs)
  show ?thesis
    using l p s
      failed_fetch_abandons_cycle [of "calm (LoadFailed ''timeout'')" "''timeout''" seen_sofa
        "[calm (Document [sofa_item])]"]
      failed_fetch_abandons_cycle [of "calm (ParseFailed ''EOF'')" "''EOF''" seen_sofa "[]"]
      failed_fetch_abandons_cycle [of "stormy (Document [sofa_item])" "[]" seen_sofa "[]"]
    by (simp add: example_defs program_defs)
qed

end
